theory Spec2Isabelle
  imports Main "HOL-Library.Word" "HOL-Library.Sublist"
begin

section \<open>JavaScript strings\<close>

text \<open>
  A JavaScript string is a sequence of 16-bit code units. Source literals are written
  through \<open>js\<close>, which maps every (ASCII) character of an Isabelle literal to its
  code unit.
\<close>

type_synonym jsstring = "16 word list"

definition js :: "string \<Rightarrow> jsstring" where
  "js s = map (\<lambda>c. of_nat (of_char c)) s"

text \<open>
  \<open>String.prototype.trim\<close> strips the ECMAScript WhiteSpace and LineTerminator code
  points from both ends: TAB, LF, VT, FF, CR, SP, NBSP, U+1680, U+2000..U+200A, U+2028,
  U+2029, U+202F, U+205F, U+3000 and U+FEFF.
\<close>

definition isWhiteSpace :: "16 word \<Rightarrow> bool" where
  "isWhiteSpace c \<longleftrightarrow>
     c = 0x9 \<or> c = 0xA \<or> c = 0xB \<or> c = 0xC \<or> c = 0xD \<or> c = 0x20 \<or> c = 0xA0 \<or>
     c = 0x1680 \<or> (0x2000 \<le> c \<and> c \<le> 0x200A) \<or> c = 0x2028 \<or> c = 0x2029 \<or>
     c = 0x202F \<or> c = 0x205F \<or> c = 0x3000 \<or> c = 0xFEFF"

definition trim :: "jsstring \<Rightarrow> jsstring" where
  "trim s = rev (dropWhile isWhiteSpace (rev (dropWhile isWhiteSpace s)))"

text \<open>\<open>s.includes(k)\<close>: \<open>k\<close> occurs in \<open>s\<close> as a contiguous substring.\<close>

fun includes_str :: "jsstring \<Rightarrow> jsstring \<Rightarrow> bool" where
  "includes_str [] k = (k = [])"
| "includes_str (c # cs) k = (prefix k (c # cs) \<or> includes_str cs k)"

text \<open>\<open>xs.join(sep)\<close> on an array of strings.\<close>

fun join :: "jsstring \<Rightarrow> jsstring list \<Rightarrow> jsstring" where
  "join sep [] = []"
| "join sep [x] = x"
| "join sep (x # y # ys) = x @ sep @ join sep (y # ys)"

text \<open>An \<open>Error\<close> object, reduced to its message.\<close>

datatype jserror = Error (message: jsstring)

text \<open>
  Template-literal interpolation of a number: \<open>showNat\<close> is the decimal numeral of a
  non-negative integer, \<open>showInt\<close> that of any integer.
\<close>

fun showNat :: "nat \<Rightarrow> jsstring" where
  "showNat n =
     (if n < 10 then [of_nat (48 + n)] else showNat (n div 10) @ [of_nat (48 + n mod 10)])"

definition showInt :: "int \<Rightarrow> jsstring" where
  "showInt i = (if i < 0 then js ''-'' @ showNat (nat (- i)) else showNat (nat i))"

section \<open>The analyzer, its environment and the effects it has\<close>

record options =
  filePatterns :: "jsstring list"
  excludePatterns :: "jsstring list"
  maxFileSize :: int

record analyzer =
  workspacePath :: jsstring
  options :: options

text \<open>
  The constructor: an option that is absent or falsy is replaced by its default. An
  array is truthy even when empty; the number \<open>0\<close> is falsy.
\<close>

record constructorOptions =
  givenFilePatterns :: "jsstring list option"
  givenExcludePatterns :: "jsstring list option"
  givenMaxFileSize :: "int option"

definition newAnalyzer :: "jsstring \<Rightarrow> constructorOptions \<Rightarrow> analyzer" where
  "newAnalyzer wsPath given =
     \<lparr>workspacePath = wsPath,
      options =
        \<lparr>filePatterns =
           (case givenFilePatterns given of
              Some ps \<Rightarrow> ps
            | None \<Rightarrow> [js ''**/*.py'', js ''**/*.js'', js ''**/*.ts'', js ''**/*.cpp'',
                        js ''**/*.c'', js ''**/*.java'']),
         excludePatterns =
           (case givenExcludePatterns given of
              Some ps \<Rightarrow> ps
            | None \<Rightarrow> [js ''**/node_modules/**'', js ''**/venv/**'', js ''**/build/**'',
                        js ''**/.git/**'']),
         maxFileSize =
           (case givenMaxFileSize given of
              Some n \<Rightarrow> if n = 0 then 100000 else n
            | None \<Rightarrow> 100000)\<rparr>\<rparr>"

text \<open>What \<open>fs.statSync\<close> returns, as far as the program and its specification look at it.\<close>

record stats =
  size_bytes :: int
  isDirectory :: bool

text \<open>
  The events a child process delivers to the handlers registered on it: a chunk on
  its standard output or standard error (already converted by \<open>toString\<close>), its
  \<open>close\<close> with the exit code (\<open>None\<close> is \<open>null\<close>: the process was ended by a
  signal), and \<open>error\<close> (the process could not be spawned).
\<close>

datatype procevent =
  StdoutData jsstring
| StderrData jsstring
| CloseEvent "int option"
| ErrorEvent jserror

text \<open>
  Everything the program takes from outside itself is a field of the environment: the
  \<open>glob\<close> library (pattern, \<open>cwd\<close>, \<open>ignore\<close>; absolute paths), \<open>fs.statSync\<close> and
  \<open>fs.readFileSync\<close> on the workspace, the failures of \<open>fs.writeFileSync\<close>,
  \<open>fs.mkdirSync\<close> and \<open>fs.unlinkSync\<close> per path, the functions of the \<open>path\<close> module,
  \<open>os.tmpdir()\<close>, \<open>Date.now()\<close>, whether \<open>process.platform\<close> is \<open>win32\<close>, and the
  two ways a \<open>spawn\<close> can go: it throws at once (\<open>spawnThrows\<close>; Node does so for the
  spawn errors it does not report through the \<open>error\<close> event, such as \<open>E2BIG\<close>), or it
  returns a child process that delivers events (\<open>childEvents\<close>, for a command line and
  the files the process can read). The static text of the viewer document before and after the embedded diagram
  (\<open>generateHTMLViewer\<close>) is kept opaque, as \<open>viewerBefore\<close> and \<open>viewerAfter\<close>.
\<close>

record env =
  glob :: "jsstring \<Rightarrow> jsstring \<Rightarrow> jsstring list \<Rightarrow> jserror + jsstring list"
  statSync :: "jsstring \<Rightarrow> jserror + stats"
  readFileSync :: "jsstring \<Rightarrow> jserror + jsstring"
  writeFault :: "jsstring \<Rightarrow> jserror option"
  mkdirFault :: "jsstring \<Rightarrow> jserror option"
  unlinkFault :: "jsstring \<Rightarrow> jserror option"
  pathJoin :: "jsstring \<Rightarrow> jsstring \<Rightarrow> jsstring"
  pathResolve :: "jsstring \<Rightarrow> jsstring \<Rightarrow> jsstring"
  pathRelative :: "jsstring \<Rightarrow> jsstring \<Rightarrow> jsstring"
  tmpdir :: jsstring
  now :: nat
  isWindows :: bool
  spawnThrows :: "jsstring \<Rightarrow> jserror option"
  childEvents :: "jsstring \<Rightarrow> (jsstring \<rightharpoonup> jsstring) \<Rightarrow> procevent list"
  viewerBefore :: jsstring
  viewerAfter :: jsstring

text \<open>
  What the program changes: the files it has written (path to content), the
  directories it has created, and the trace of every side-effecting call it has made,
  in order, whether the call succeeded or not. The informational \<open>console.log\<close>
  lines are not part of the model; \<open>console.warn\<close> is.
\<close>

datatype effect =
  Mkdir jsstring bool
| WriteFile jsstring jsstring
| Unlink jsstring
| Spawn jsstring
| Warn jsstring

record world =
  fileStore :: "jsstring \<rightharpoonup> jsstring"
  dirStore :: "jsstring set"
  trace :: "effect list"

definition logEffect :: "effect \<Rightarrow> world \<Rightarrow> world" where
  "logEffect x w = w\<lparr>trace := trace w @ [x]\<rparr>"



definition writeFileSync :: "env \<Rightarrow> jsstring \<Rightarrow> jsstring \<Rightarrow> world \<Rightarrow> world \<times> jserror option" where
  "writeFileSync e p c w =
     (case writeFault e p of
        Some err \<Rightarrow> (logEffect (WriteFile p c) w, Some err)
      | None \<Rightarrow> (logEffect (WriteFile p c) (w\<lparr>fileStore := (fileStore w)(p \<mapsto> c)\<rparr>), None))"

definition unlinkSync :: "env \<Rightarrow> jsstring \<Rightarrow> world \<Rightarrow> world \<times> jserror option" where
  "unlinkSync e p w =
     (case unlinkFault e p of
        Some err \<Rightarrow> (logEffect (Unlink p) w, Some err)
      | None \<Rightarrow>
          (case fileStore w p of
             None \<Rightarrow>
               (logEffect (Unlink p) w, Some (Error (js ''ENOENT: no such file or directory'')))
           | Some c \<Rightarrow>
               (logEffect (Unlink p) (w\<lparr>fileStore := (fileStore w)(p := None)\<rparr>), None)))"

text \<open>A promise is pending until it is settled, and it is settled once.\<close>

datatype 'a promise = Pending | Resolved 'a | Rejected jserror

definition settle :: "'a promise \<Rightarrow> 'a promise \<Rightarrow> 'a promise" where
  "settle p q = (case p of Pending \<Rightarrow> q | Resolved v \<Rightarrow> p | Rejected err \<Rightarrow> p)"

section \<open>scanWorkspace\<close>

text \<open>The first loop: the matches of every include pattern are appended to \<open>files\<close>.\<close>

fun globPatterns :: "env \<Rightarrow> analyzer \<Rightarrow> jsstring list \<Rightarrow> jsstring list \<Rightarrow> jserror + jsstring list" where
  "globPatterns e a [] files = Inr files"
| "globPatterns e a (pattern # patterns) files =
     (case glob e pattern (workspacePath a) (excludePatterns (options a)) of
        Inl err \<Rightarrow> Inl err
      | Inr matches \<Rightarrow> globPatterns e a patterns (files @ matches))"

text \<open>
  The second loop: \<open>statSync\<close> is not guarded, so an exception of it leaves the
  function.
\<close>

fun filterBySize :: "env \<Rightarrow> analyzer \<Rightarrow> jsstring list \<Rightarrow> jsstring list \<Rightarrow> jserror + jsstring list" where
  "filterBySize e a [] validFiles = Inr validFiles"
| "filterBySize e a (file # rest) validFiles =
     (case statSync e file of
        Inl err \<Rightarrow> Inl err
      | Inr st \<Rightarrow>
          filterBySize e a rest
            (if size_bytes st \<le> maxFileSize (options a) then validFiles @ [file]
             else validFiles))"

definition scanWorkspace :: "env \<Rightarrow> analyzer \<Rightarrow> jserror + jsstring list" where
  "scanWorkspace e a =
     (case globPatterns e a (filePatterns (options a)) [] of
        Inl err \<Rightarrow> Inl err
      | Inr files \<Rightarrow> filterBySize e a files [])"

section \<open>readFiles\<close>

record fileRecord =
  path :: jsstring
  content :: jsstring

definition readWarning :: "jsstring \<Rightarrow> jserror \<Rightarrow> effect" where
  "readWarning filePath err =
     Warn (js ''Warning: Could not read '' @ filePath @ js '': '' @ message err)"

fun readLoop :: "env \<Rightarrow> analyzer \<Rightarrow> jsstring list \<Rightarrow> world \<times> fileRecord list \<Rightarrow> world \<times> fileRecord list" where
  "readLoop e a [] (w, fileContents) = (w, fileContents)"
| "readLoop e a (filePath # rest) (w, fileContents) =
     (case readFileSync e filePath of
        Inr c \<Rightarrow>
          readLoop e a rest
            (w, fileContents @ [\<lparr>path = pathRelative e (workspacePath a) filePath, content = c\<rparr>])
      | Inl err \<Rightarrow>
          readLoop e a rest (logEffect (readWarning filePath err) w, fileContents))"

definition readFiles :: "env \<Rightarrow> analyzer \<Rightarrow> jsstring list \<Rightarrow> world \<Rightarrow> world \<times> fileRecord list" where
  "readFiles e a filePaths w = readLoop e a filePaths (w, [])"

section \<open>createAnalysisPrompt\<close>

definition fileSummary :: "fileRecord \<Rightarrow> jsstring" where
  "fileSummary f =
     js ''File: '' @ path f @ js ''\<newline>```\<newline>'' @ content f @ js ''\<newline>```\<newline>''"

definition promptIntro :: jsstring where
  \<open>promptIntro =
     js ''You are analyzing a codebase to extract state machine patterns. \<newline>'' @
     js ''\<newline>'' @
     js ''Here are the relevant files from the project:\<newline>'' @
     js ''\<newline>''\<close>

definition promptTask :: jsstring where
  \<open>promptTask =
     js ''\<newline>'' @
     js ''\<newline>'' @
     js ''Your task is to:\<newline>'' @
     js ''1. Identify any state machine logic, state transitions, or finite state machine patterns\<newline>'' @
     js ''2. Extract the states, events/transitions, and their relationships\<newline>'' @
     js ''3. Generate a Mermaid stateDiagram-v2 that represents this state machine\<newline>'' @
     js ''\<newline>''\<close>

definition promptGuidance :: jsstring where
  \<open>promptGuidance =
     js ''\<newline>'' @
     js ''Look for patterns like:\<newline>'' @
     js ''- Explicit state variables or enums (e.g., state = "IDLE", State.RUNNING)\<newline>'' @
     js ''- State transition functions (e.g., transition_to(), setState())\<newline>'' @
     js ''- Switch/case statements on state variables\<newline>'' @
     js ''- If/else chains checking state\<newline>'' @
     js ''- Event handlers that change state\<newline>'' @
     js ''- Robot control states (idle, moving, stopped, error, etc.)\<newline>'' @
     js ''\<newline>'' @
     js ''Output format:\<newline>'' @
     js ''1. First, provide a brief explanation of what state machine you found\<newline>'' @
     js ''2. Then output ONLY the Mermaid diagram code, starting with "stateDiagram-v2"\<newline>'' @
     js ''3. Use clear, descriptive state names\<newline>'' @
     js ''4. Label transitions with the events/conditions that trigger them\<newline>'' @
     js ''\<newline>'' @
     js ''Example output format:\<newline>'' @
     js ''I found a robot control state machine with 4 states...\<newline>'' @
     js ''\<newline>'' @
     js ''stateDiagram-v2\<newline>'' @
     js ''    [*] --> Idle\<newline>'' @
     js ''    Idle --> Moving: start_command\<newline>'' @
     js ''    Moving --> Stopped: stop_command\<newline>'' @
     js ''    Moving --> Error: sensor_fault\<newline>'' @
     js ''    Error --> Idle: reset\<newline>'' @
     js ''    Stopped --> [*]\<newline>''\<close>

text \<open>The focus is inserted when it is truthy: present and not the empty string.\<close>

definition createAnalysisPrompt :: "fileRecord list \<Rightarrow> jsstring option \<Rightarrow> jsstring" where
  "createAnalysisPrompt fs focusArea =
     (let filesSummary = join (js ''\<newline>---\<newline>\<newline>'') (map fileSummary fs);
          prompt = promptIntro @ filesSummary @ promptTask;
          prompt =
            (case focusArea of
               Some area \<Rightarrow>
                 if area \<noteq> []
                 then prompt @ js ''\<newline>Focus specifically on: '' @ area @ js ''\<newline>''
                 else prompt
             | None \<Rightarrow> prompt)
      in prompt @ promptGuidance)"

section \<open>analyzeWithClaude\<close>

definition tmpFileName :: "env \<Rightarrow> jsstring" where
  "tmpFileName e = pathJoin e (tmpdir e) (js ''claude-prompt-'' @ showNat (now e) @ js ''.txt'')"

definition commandLine :: "env \<Rightarrow> jsstring \<Rightarrow> jsstring" where
  \<open>commandLine e tmpFile =
     (if isWindows e then js ''claude.cmd --print < "'' @ tmpFile @ js ''"''
      else js ''claude --print < "'' @ tmpFile @ js ''"'')\<close>

definition showCode :: "int option \<Rightarrow> jsstring" where
  "showCode code = (case code of None \<Rightarrow> js ''null'' | Some n \<Rightarrow> showInt n)"

definition exitedError :: "int option \<Rightarrow> jsstring \<Rightarrow> jserror" where
  "exitedError code stderrText =
     Error (js ''Claude CLI exited with code '' @ showCode code @ js '': '' @ stderrText)"

definition startError :: "jserror \<Rightarrow> jserror" where
  "startError err =
     Error (js ''Failed to start Claude CLI: '' @ message err @
            js ''. Make sure 'claude' is installed and in your PATH.'')"

text \<open>
  The state the handlers share: the two accumulated streams and the promise that
  \<open>resolve\<close> and \<open>reject\<close> settle.
\<close>

record childState =
  output_text :: jsstring
  errorOutput :: jsstring
  outcome :: "jsstring promise"

text \<open>
  One handler run per event. Both \<open>close\<close> and \<open>error\<close> first unlink the temporary
  file inside a \<open>try\<close> whose \<open>catch\<close> is empty, then settle the promise.
\<close>

fun handleEvent ::
  "env \<Rightarrow> jsstring \<Rightarrow> procevent \<Rightarrow> world \<times> childState \<Rightarrow> world \<times> childState" where
  "handleEvent e tmpFile (StdoutData d) (w, s) = (w, s\<lparr>output_text := output_text s @ d\<rparr>)"
| "handleEvent e tmpFile (StderrData d) (w, s) = (w, s\<lparr>errorOutput := errorOutput s @ d\<rparr>)"
| "handleEvent e tmpFile (CloseEvent code) (w, s) =
     (fst (unlinkSync e tmpFile w),
      s\<lparr>outcome :=
          settle (outcome s)
            (if code \<noteq> Some 0 then Rejected (exitedError code (errorOutput s))
             else Resolved (trim (output_text s)))\<rparr>)"
| "handleEvent e tmpFile (ErrorEvent err) (w, s) =
     (fst (unlinkSync e tmpFile w),
      s\<lparr>outcome := settle (outcome s) (Rejected (startError err))\<rparr>)"

fun handleEvents ::
  "env \<Rightarrow> jsstring \<Rightarrow> procevent list \<Rightarrow> world \<times> childState \<Rightarrow> world \<times> childState" where
  "handleEvents e tmpFile [] st = st"
| "handleEvents e tmpFile (ev # evs) st =
     handleEvents e tmpFile evs (handleEvent e tmpFile ev st)"

text \<open>
  The prompt is written before the promise is made. \<open>spawn\<close> is called in the executor
  of the promise, outside any \<open>try\<close>: when it throws, the promise is rejected with that
  exception, no handler has been registered and nothing unlinks the file.
\<close>

definition analyzeWithClaude :: "env \<Rightarrow> jsstring \<Rightarrow> world \<Rightarrow> world \<times> jsstring promise" where
  "analyzeWithClaude e prompt w =
     (let tmpFile = tmpFileName e in
      case writeFileSync e tmpFile prompt w of
        (w1, Some err) \<Rightarrow> (w1, Rejected err)
      | (w1, None) \<Rightarrow>
          (let command = commandLine e tmpFile;
               w2 = logEffect (Spawn command) w1
           in case spawnThrows e command of
                Some err \<Rightarrow> (w2, Rejected err)
              | None \<Rightarrow>
                  (let (w3, s) =
                         handleEvents e tmpFile (childEvents e command (fileStore w2))
                           (w2, \<lparr>output_text = [], errorOutput = [], outcome = Pending\<rparr>)
                   in (w3, outcome s))))"

section \<open>extractMermaidDiagram\<close>

definition keyword :: jsstring where
  "keyword = js ''stateDiagram-v2''"

definition blankLine :: jsstring where
  "blankLine = js ''\<newline>\<newline>''"

definition fenceAfterNewline :: jsstring where
  "fenceAfterNewline = js ''\<newline>```''"

definition fence :: jsstring where
  "fence = js ''```''"

definition fenceOpen :: jsstring where
  "fenceOpen = js ''```mermaid\<newline>''"

text \<open>
  The lookahead \<^verbatim>\<open>(?=\n\n|\n```|$)\<close> at the position where \<open>s\<close> is the rest of the
  input. The expression has no \<open>m\<close> flag, so \<^verbatim>\<open>$\<close> holds at the end of the input only.
\<close>

definition atBoundary :: "jsstring \<Rightarrow> bool" where
  "atBoundary s \<longleftrightarrow> prefix blankLine s \<or> prefix fenceAfterNewline s \<or> s = []"

text \<open>
  \<^verbatim>\<open>[\s\S]*?(?=\n\n|\n```|$)\<close>: the lazy quantifier takes one code unit at a time and
  stops at the first position where the lookahead holds.
\<close>

fun lazyUntilBoundary :: "jsstring \<Rightarrow> jsstring" where
  "lazyUntilBoundary [] = []"
| "lazyUntilBoundary (c # cs) =
     (if atBoundary (c # cs) then [] else c # lazyUntilBoundary cs)"

text \<open>
  \<^verbatim>\<open>response.match(/stateDiagram-v2[\s\S]*?(?=\n\n|\n```|$)/)\<close>: the leftmost position
  at which the expression matches, tried from position \<open>i\<close> on. The result is the pair
  of the match object's \<open>index\<close> and its element \<open>[0]\<close>; \<open>None\<close> is \<open>null\<close>.
\<close>

fun diagramMatchFrom :: "nat \<Rightarrow> jsstring \<Rightarrow> (nat \<times> jsstring) option" where
  "diagramMatchFrom i [] = None"
| "diagramMatchFrom i (c # cs) =
     (if prefix keyword (c # cs)
      then Some (i, keyword @ lazyUntilBoundary (drop (length keyword) (c # cs)))
      else diagramMatchFrom (Suc i) cs)"

definition diagramMatch :: "jsstring \<Rightarrow> (nat \<times> jsstring) option" where
  "diagramMatch response = diagramMatchFrom 0 response"

text \<open>
  \<^verbatim>\<open>([\s\S]*?)```\<close>: the capture group grows lazily up to the first closing fence;
  there is no match when no fence follows.
\<close>

fun lazyUntilFence :: "jsstring \<Rightarrow> jsstring option" where
  "lazyUntilFence [] = None"
| "lazyUntilFence (c # cs) =
     (if prefix fence (c # cs) then Some [] else map_option ((#) c) (lazyUntilFence cs))"

text \<open>
  \<^verbatim>\<open>response.match(/```mermaid\n([\s\S]*?)```/)\<close>: the capture group \<open>[1]\<close> of the
  leftmost match.
\<close>

fun codeBlockMatch :: "jsstring \<Rightarrow> jsstring option" where
  "codeBlockMatch [] = None"
| "codeBlockMatch (c # cs) =
     (if prefix fenceOpen (c # cs)
      then (case lazyUntilFence (drop (length fenceOpen) (c # cs)) of
              Some g \<Rightarrow> Some g
            | None \<Rightarrow> codeBlockMatch cs)
      else codeBlockMatch cs)"

definition extractMermaidDiagram :: "jsstring \<Rightarrow> jserror + jsstring" where
  "extractMermaidDiagram response =
     (case diagramMatch response of
        Some (i, m) \<Rightarrow> Inr (trim m)
      | None \<Rightarrow>
          (case codeBlockMatch response of
             Some g \<Rightarrow> Inr (trim g)
           | None \<Rightarrow>
               if includes_str response keyword then Inr response
               else Inl (Error (js ''Could not extract Mermaid diagram from response''))))"

text \<open>
  The first strategy as the specification words it: the keyword is looked for at the
  start of a line only (the flag says whether the current position starts a line, that
  is, starts the text or follows a line terminator), and the capture runs to the same
  boundaries.
\<close>

definition isLineTerminator :: "16 word \<Rightarrow> bool" where
  "isLineTerminator c \<longleftrightarrow> c = 0xA \<or> c = 0xD \<or> c = 0x2028 \<or> c = 0x2029"

fun specLineStartFrom :: "bool \<Rightarrow> jsstring \<Rightarrow> jsstring option" where
  "specLineStartFrom b [] = None"
| "specLineStartFrom b (c # cs) =
     (if b \<and> prefix keyword (c # cs)
      then Some (keyword @ lazyUntilBoundary (drop (length keyword) (c # cs)))
      else specLineStartFrom (isLineTerminator c) cs)"

definition specLineStartBlock :: "jsstring \<Rightarrow> jsstring option" where
  "specLineStartBlock response = specLineStartFrom True response"


section \<open>analyze\<close>

record analysisResult =
  analysis :: jsstring
  mermaidDiagram :: jsstring
  filesAnalyzed :: "jsstring list"

text \<open>
  \<open>selectedFiles\<close> is an array or absent; an array is truthy also when it is empty.
\<close>

definition selectPaths :: "env \<Rightarrow> analyzer \<Rightarrow> jsstring list option \<Rightarrow> jserror + jsstring list" where
  "selectPaths e a selectedFiles =
     (case selectedFiles of
        Some sel \<Rightarrow> Inr (map (pathResolve e (workspacePath a)) sel)
      | None \<Rightarrow> scanWorkspace e a)"

definition analyze ::
  "env \<Rightarrow> analyzer \<Rightarrow> jsstring option \<Rightarrow> jsstring list option \<Rightarrow> world \<Rightarrow> world \<times> analysisResult promise" where
  "analyze e a focusArea selectedFiles w =
     (case selectPaths e a selectedFiles of
        Inl err \<Rightarrow> (w, Rejected err)
      | Inr filePaths \<Rightarrow>
          if length filePaths = 0 then (w, Rejected (Error (js ''No files found to analyze'')))
          else
            (let (w1, fs) = readFiles e a filePaths w;
                 prompt = createAnalysisPrompt fs focusArea;
                 (w2, p) = analyzeWithClaude e prompt w1
             in case p of
                  Pending \<Rightarrow> (w2, Pending)
                | Rejected err \<Rightarrow> (w2, Rejected err)
                | Resolved response \<Rightarrow>
                    (case extractMermaidDiagram response of
                       Inl err \<Rightarrow> (w2, Rejected err)
                     | Inr diagram \<Rightarrow>
                         (w2, Resolved \<lparr>analysis = response, mermaidDiagram = diagram,
                                        filesAnalyzed = map path fs\<rparr>))))"

section \<open>generateHTMLViewer and saveResults\<close>







section \<open>Notions used to state the properties\<close>

text \<open>A path is unreadable when \<open>readFileSync\<close> throws on it.\<close>

definition unreadable :: "env \<Rightarrow> jsstring \<Rightarrow> bool" where
  "unreadable e p \<longleftrightarrow> isl (readFileSync e p)"

text \<open>The record and the warning that \<open>readFiles\<close> owes to a path.\<close>

definition recordOf :: "env \<Rightarrow> analyzer \<Rightarrow> jsstring \<Rightarrow> fileRecord" where
  "recordOf e a p =
     \<lparr>path = pathRelative e (workspacePath a) p, content = projr (readFileSync e p)\<rparr>"

definition warningOf :: "env \<Rightarrow> jsstring \<Rightarrow> effect" where
  "warningOf e p = readWarning p (projl (readFileSync e p))"

text \<open>
  What an explicit selection comes to: the selected names resolved against the
  workspace root, the records of those that can be read and the warnings for those
  that cannot.
\<close>

definition selectedPaths :: "env \<Rightarrow> analyzer \<Rightarrow> jsstring list \<Rightarrow> jsstring list" where
  "selectedPaths e a sel = map (pathResolve e (workspacePath a)) sel"

definition selectedRecords :: "env \<Rightarrow> analyzer \<Rightarrow> jsstring list \<Rightarrow> fileRecord list" where
  "selectedRecords e a sel =
     map (recordOf e a) (filter (\<lambda>p. \<not> unreadable e p) (selectedPaths e a sel))"

definition selectedWarnings :: "env \<Rightarrow> analyzer \<Rightarrow> jsstring list \<Rightarrow> effect list" where
  "selectedWarnings e a sel = map (warningOf e) (filter (unreadable e) (selectedPaths e a sel))"

text \<open>The events that end a child process, and the text captured on each stream.\<close>

fun isTerminal :: "procevent \<Rightarrow> bool" where
  "isTerminal (CloseEvent code) = True"
| "isTerminal (ErrorEvent err) = True"
| "isTerminal (StdoutData d) = False"
| "isTerminal (StderrData d) = False"

fun capturedStdout :: "procevent list \<Rightarrow> jsstring" where
  "capturedStdout [] = []"
| "capturedStdout (StdoutData d # evs) = d @ capturedStdout evs"
| "capturedStdout (ev # evs) = capturedStdout evs"

fun capturedStderr :: "procevent list \<Rightarrow> jsstring" where
  "capturedStderr [] = []"
| "capturedStderr (StderrData d # evs) = d @ capturedStderr evs"
| "capturedStderr (ev # evs) = capturedStderr evs"

text \<open>The events of the child process that \<open>analyzeWithClaude\<close> starts.\<close>

definition oracleEvents :: "env \<Rightarrow> jsstring \<Rightarrow> world \<Rightarrow> procevent list" where
  "oracleEvents e prompt w =
     childEvents e (commandLine e (tmpFileName e)) ((fileStore w)(tmpFileName e \<mapsto> prompt))"

text \<open>
  The state in which the handlers start: the prompt is in the temporary file, the
  write and the spawn are in the trace, nothing is captured and the promise is pending.
\<close>

definition spawned :: "env \<Rightarrow> jsstring \<Rightarrow> world \<Rightarrow> world" where
  "spawned e prompt w =
     logEffect (Spawn (commandLine e (tmpFileName e)))
       (logEffect (WriteFile (tmpFileName e) prompt)
          (w\<lparr>fileStore := (fileStore w)(tmpFileName e \<mapsto> prompt)\<rparr>))"

definition initialChild :: childState where
  "initialChild = \<lparr>output_text = [], errorOutput = [], outcome = Pending\<rparr>"








section \<open>Concrete environments\<close>

text \<open>
  A POSIX machine with an empty workspace, on which nothing fails but reading and
  \<open>stat\<close> of files that are not there, and on which \<open>spawn\<close> returns a child process
  that never reports back.
  The examples below change single fields of it.
\<close>

definition enoent :: jserror where
  "enoent = Error (js ''ENOENT: no such file or directory'')"

definition posixEnv :: env where
  "posixEnv =
     \<lparr>glob = (\<lambda>pattern cwd ignore. Inr []),
      statSync = (\<lambda>p. Inl enoent),
      readFileSync = (\<lambda>p. Inl enoent),
      writeFault = (\<lambda>p. None),
      mkdirFault = (\<lambda>p. None),
      unlinkFault = (\<lambda>p. None),
      pathJoin = (\<lambda>a b. a @ js ''/'' @ b),
      pathResolve = (\<lambda>a b. a @ js ''/'' @ b),
      pathRelative = (\<lambda>root p. drop (length root + 1) p),
      tmpdir = js ''/tmp'',
      now = 7,
      isWindows = False,
      spawnThrows = (\<lambda>command. None),
      childEvents = (\<lambda>command fs. []),
      viewerBefore = js ''<html>'',
      viewerAfter = js ''</html>''\<rparr>"

definition emptyWorld :: world where
  "emptyWorld = \<lparr>fileStore = Map.empty, dirStore = {}, trace = []\<rparr>"

definition wsAnalyzer :: analyzer where
  "wsAnalyzer =
     newAnalyzer (js ''/ws'')
       \<lparr>givenFilePatterns = None, givenExcludePatterns = None, givenMaxFileSize = None\<rparr>"

text \<open>
  A workspace scanned with the include patterns \<^verbatim>\<open>**/*.js\<close> and \<^verbatim>\<open>src/*\<close>: the file
  \<^verbatim>\<open>/ws/src/a.js\<close> matches both, and the second pattern matches the directory
  \<^verbatim>\<open>/ws/src/lib\<close> too.
\<close>

definition overlapAnalyzer :: analyzer where
  "overlapAnalyzer =
     newAnalyzer (js ''/ws'')
       \<lparr>givenFilePatterns = Some [js ''**/*.js'', js ''src/*''],
        givenExcludePatterns = None, givenMaxFileSize = None\<rparr>"

definition overlapEnv :: env where
  "overlapEnv =
     posixEnv
       \<lparr>glob := (\<lambda>pattern cwd ignore.
           if pattern = js ''**/*.js'' then Inr [js ''/ws/src/a.js'']
           else if pattern = js ''src/*'' then Inr [js ''/ws/src/a.js'', js ''/ws/src/lib'']
           else Inr []),
        statSync := (\<lambda>p.
           if p = js ''/ws/src/a.js'' then Inr \<lparr>size_bytes = 20, isDirectory = False\<rparr>
           else if p = js ''/ws/src/lib'' then Inr \<lparr>size_bytes = 4096, isDirectory = True\<rparr>
           else Inl enoent)\<rparr>"

text \<open>
  A workspace in which \<^verbatim>\<open>**/*.py\<close> matches \<^verbatim>\<open>/ws/a.py\<close> (20 bytes) and
  \<^verbatim>\<open>/ws/gone.py\<close>, an entry whose status cannot be read (a dangling link, or a file
  removed since the match).
\<close>

definition danglingEnv :: env where
  "danglingEnv =
     posixEnv
       \<lparr>glob := (\<lambda>pattern cwd ignore.
           if pattern = js ''**/*.py'' then Inr [js ''/ws/a.py'', js ''/ws/gone.py'']
           else Inr []),
        statSync := (\<lambda>p.
           if p = js ''/ws/a.py'' then Inr \<lparr>size_bytes = 20, isDirectory = False\<rparr>
           else Inl enoent)\<rparr>"

text \<open>
  A workspace in which \<^verbatim>\<open>**/*.py\<close> matches \<^verbatim>\<open>/ws/a.py\<close> (20 bytes) and
  \<^verbatim>\<open>/ws/b.py\<close> (200000 bytes).
\<close>

definition sizesEnv :: env where
  "sizesEnv =
     posixEnv
       \<lparr>glob := (\<lambda>pattern cwd ignore.
           if pattern = js ''**/*.py'' then Inr [js ''/ws/a.py'', js ''/ws/b.py'']
           else Inr []),
        statSync := (\<lambda>p.
           if p = js ''/ws/a.py'' then Inr \<lparr>size_bytes = 20, isDirectory = False\<rparr>
           else if p = js ''/ws/b.py'' then Inr \<lparr>size_bytes = 200000, isDirectory = False\<rparr>
           else Inl enoent)\<rparr>"

text \<open>
  A workspace with a readable \<^verbatim>\<open>/ws/a.py\<close> and an oracle that prints a diagram and
  exits with code 0.
\<close>

definition replyEvents :: "procevent list" where
  "replyEvents =
     [StdoutData (js ''Two states.\<newline>\<newline>stateDiagram''),
      StdoutData (js ''-v2\<newline>  A --> B\<newline>''),
      CloseEvent (Some 0)]"

definition replyingEnv :: env where
  "replyingEnv =
     posixEnv
       \<lparr>readFileSync := (\<lambda>p. if p = js ''/ws/a.py'' then Inr (js ''state = 1'') else Inl enoent),
        childEvents := (\<lambda>command fs. replyEvents)\<rparr>"

text \<open>
  A workspace whose file \<^verbatim>\<open>/ws/node_modules/big.js\<close> lies under an excluded
  directory and has 200000 bytes, with the same oracle.
\<close>

definition bigFileEnv :: env where
  "bigFileEnv =
     posixEnv
       \<lparr>statSync := (\<lambda>p.
           if p = js ''/ws/node_modules/big.js''
           then Inr \<lparr>size_bytes = 200000, isDirectory = False\<rparr> else Inl enoent),
        readFileSync := (\<lambda>p.
           if p = js ''/ws/node_modules/big.js'' then Inr (js ''var s = 0;'') else Inl enoent),
        childEvents := (\<lambda>command fs. replyEvents)\<rparr>"

text \<open>An oracle that writes to its standard error and exits with code 1.\<close>

definition failingEnv :: env where
  "failingEnv =
     posixEnv
       \<lparr>childEvents := (\<lambda>command fs.
           [StderrData (js ''not logged in''), CloseEvent (Some 1)])\<rparr>"

text \<open>A shell that cannot be spawned: \<open>error\<close> is emitted, then \<open>close\<close>.\<close>

definition unspawnableEnv :: env where
  "unspawnableEnv =
     posixEnv
       \<lparr>childEvents := (\<lambda>command fs.
           [ErrorEvent (Error (js ''spawn /bin/sh ENOENT'')), CloseEvent (Some (- 2))])\<rparr>"

text \<open>
  A machine on which \<open>claude\<close> is not on the search path: with \<open>shell: true\<close> the shell
  is spawned, reports the missing command on its standard error and exits with code 127.
\<close>

definition missingClaudeEnv :: env where
  "missingClaudeEnv =
     posixEnv
       \<lparr>childEvents := (\<lambda>command fs.
           [StderrData (js ''/bin/sh: 1: claude: not found\<newline>''), CloseEvent (Some 127)])\<rparr>"

text \<open>A machine on which \<open>spawn\<close> throws at once (an environment too large to pass on).\<close>

definition throwingSpawnEnv :: env where
  "throwingSpawnEnv = posixEnv\<lparr>spawnThrows := (\<lambda>command. Some (Error (js ''spawn E2BIG'')))\<rparr>"


text \<open>An oracle that exits with code 0 and prints nothing.\<close>

definition silentEnv :: env where
  "silentEnv = posixEnv\<lparr>childEvents := (\<lambda>command fs. [CloseEvent (Some 0)])\<rparr>"



section \<open>Properties of the extraction\<close>

lemma includes_str_sublist: "includes_str s k \<longleftrightarrow> sublist k s"
  by (induction s) (auto simp: sublist_Cons_right)

lemma trim_Nil_iff: "trim s = [] \<longleftrightarrow> (\<forall>c\<in>set s. isWhiteSpace c)"
proof
  assume t: "trim s = []"
  have "dropWhile isWhiteSpace s = []"
  proof (rule ccontr)
    assume ne: "dropWhile isWhiteSpace s \<noteq> []"
    then have "\<not> isWhiteSpace (hd (dropWhile isWhiteSpace s))"
      by (rule hd_dropWhile)
    moreover have "hd (dropWhile isWhiteSpace s) \<in> set (rev (dropWhile isWhiteSpace s))"
      using ne by simp
    moreover from t have "\<forall>c\<in>set (rev (dropWhile isWhiteSpace s)). isWhiteSpace c"
      unfolding trim_def by simp
    ultimately show False by blast
  qed
  then show "\<forall>c\<in>set s. isWhiteSpace c"
    by simp
next
  assume "\<forall>c\<in>set s. isWhiteSpace c"
  then show "trim s = []"
    by (auto simp: trim_def dest: set_dropWhileD)
qed

lemma lazyUntilBoundary_prefix: "prefix (lazyUntilBoundary s) s"
  by (induction s) auto

lemma lazyUntilBoundary_stops: "atBoundary (drop (length (lazyUntilBoundary s)) s)"
  by (induction s) (auto simp: atBoundary_def)

lemma lazyUntilBoundary_minimal:
  "k < length (lazyUntilBoundary s) \<Longrightarrow> \<not> atBoundary (drop k s)"
proof (induction s arbitrary: k)
  case Nil
  then show ?case by simp
next
  case (Cons c cs)
  then show ?case by (cases k) (auto split: if_splits)
qed

lemma diagramMatchFrom_Some:
  "diagramMatchFrom i r = Some (j, m) \<Longrightarrow>
     \<exists>k. j = i + k \<and> k < length r \<and> prefix keyword (drop k r) \<and>
         (\<forall>l<k. \<not> prefix keyword (drop l r)) \<and>
         m = keyword @ lazyUntilBoundary (drop (length keyword) (drop k r))"
proof (induction r arbitrary: i)
  case Nil
  then show ?case by simp
next
  case (Cons c cs)
  show ?case
  proof (cases "prefix keyword (c # cs)")
    case True
    with Cons.prems have "j = i + 0 \<and> 0 < length (c # cs) \<and> prefix keyword (drop 0 (c # cs)) \<and>
         (\<forall>l<0. \<not> prefix keyword (drop l (c # cs))) \<and>
         m = keyword @ lazyUntilBoundary (drop (length keyword) (drop 0 (c # cs)))"
      by simp
    then show ?thesis by blast
  next
    case False
    with Cons.prems have "diagramMatchFrom (Suc i) cs = Some (j, m)" by simp
    from Cons.IH [OF this] obtain k where k: "j = Suc i + k" "k < length cs"
      "prefix keyword (drop k cs)" "\<forall>l<k. \<not> prefix keyword (drop l cs)"
      "m = keyword @ lazyUntilBoundary (drop (length keyword) (drop k cs))"
      by blast
    have "\<forall>l<Suc k. \<not> prefix keyword (drop l (c # cs))"
    proof (intro allI impI)
      fix l assume "l < Suc k"
      then show "\<not> prefix keyword (drop l (c # cs))"
        using False k(4) by (cases l) auto
    qed
    with k have "j = i + Suc k \<and> Suc k < length (c # cs) \<and> prefix keyword (drop (Suc k) (c # cs)) \<and>
         (\<forall>l<Suc k. \<not> prefix keyword (drop l (c # cs))) \<and>
         m = keyword @ lazyUntilBoundary (drop (length keyword) (drop (Suc k) (c # cs)))"
      by simp
    then show ?thesis by blast
  qed
qed

lemma keyword_nonempty: "keyword \<noteq> []"
  by (simp add: keyword_def js_def)

lemma diagramMatchFrom_None: "diagramMatchFrom i r = None \<longleftrightarrow> \<not> sublist keyword r"
  by (induction r arbitrary: i) (auto simp: sublist_Cons_right keyword_nonempty)

lemma codeBlockMatch_Some_fenceOpen: "codeBlockMatch r = Some g \<Longrightarrow> sublist fenceOpen r"
  by (induction r) (auto simp: sublist_Cons_right split: if_splits option.splits)

lemma keyword_head_not_space: "\<not> isWhiteSpace (hd keyword)"
  by (simp add: keyword_def js_def isWhiteSpace_def)

lemma trim_keyword_block_nonempty: "trim (keyword @ s) \<noteq> []"
proof -
  have "hd keyword \<in> set (keyword @ s)"
    using keyword_nonempty by simp
  with keyword_head_not_space show ?thesis
    unfolding trim_Nil_iff by blast
qed

text \<open>
  C2 (as amended). Whenever the keyword occurs anywhere in the reply, the first strategy
  matches at its first occurrence, wherever in a line that is: no earlier position
  starts the keyword. The match is the keyword followed by the shortest run of code
  units after which a double line break, a newline followed by a fence, or the end of
  the text comes. Its trimmed text is what \<open>extractMermaidDiagram\<close> returns, whatever the
  fenced-block expression would match.
\<close>

theorem extractMermaidDiagram_keyword_first_occurrence:
  assumes "sublist keyword r"
  shows "\<exists>i m. diagramMatch r = Some (i, m) \<and> prefix keyword m \<and> prefix m (drop i r) \<and>
           (\<forall>j<i. \<not> prefix keyword (drop j r)) \<and>
           atBoundary (drop (i + length m) r) \<and>
           (\<forall>k. length keyword \<le> k \<and> k < length m \<longrightarrow> \<not> atBoundary (drop (i + k) r)) \<and>
           extractMermaidDiagram r = Inr (trim m)"
proof -
  from assms have "diagramMatchFrom 0 r \<noteq> None"
    by (simp add: diagramMatchFrom_None)
  then obtain i m where im: "diagramMatchFrom 0 r = Some (i, m)"
    by auto
  define rest where "rest = drop (length keyword) (drop i r)"
  define cap where "cap = lazyUntilBoundary rest"
  from diagramMatchFrom_Some [OF im] have
    pre: "prefix keyword (drop i r)" and first: "\<forall>l<i. \<not> prefix keyword (drop l r)"
    and m: "m = keyword @ cap"
    by (auto simp: rest_def cap_def)
  from pre obtain zs where zs: "drop i r = keyword @ zs"
    by (auto simp: prefix_def)
  have "rest = zs"
    unfolding rest_def zs by simp
  with zs have split: "drop i r = keyword @ rest" by simp
  have "prefix cap rest"
    unfolding cap_def by (rule lazyUntilBoundary_prefix)
  with split m have sub: "prefix m (drop i r)" by simp
  have dropk: "drop (i + k) r = drop (k - length keyword) rest" if "length keyword \<le> k" for k
  proof -
    have "drop (i + k) r = drop k (drop i r)" by (simp add: add.commute)
    also have "\<dots> = drop (k - length keyword) rest"
      using that by (simp add: split)
    finally show ?thesis .
  qed
  have "drop (i + length m) r = drop (length cap) rest"
    using dropk [of "length m"] by (simp add: m)
  then have stop: "atBoundary (drop (i + length m) r)"
    by (simp add: cap_def lazyUntilBoundary_stops)
  have minimal: "\<forall>k. length keyword \<le> k \<and> k < length m \<longrightarrow> \<not> atBoundary (drop (i + k) r)"
  proof (intro allI impI)
    fix k assume k: "length keyword \<le> k \<and> k < length m"
    then have "k - length keyword < length (lazyUntilBoundary rest)"
      by (auto simp: m cap_def)
    then have "\<not> atBoundary (drop (k - length keyword) rest)"
      by (rule lazyUntilBoundary_minimal)
    with k show "\<not> atBoundary (drop (i + k) r)" by (simp add: dropk)
  qed
  have "extractMermaidDiagram r = Inr (trim m)"
    by (simp add: extractMermaidDiagram_def diagramMatch_def im)
  with im m sub first stop minimal show ?thesis
    by (auto simp: diagramMatch_def)
qed

text \<open>
  C5 (as amended). \<open>extractMermaidDiagram\<close> returns the empty string exactly when the
  reply does not contain the keyword and the interior of its first complete
  \<^verbatim>\<open>```mermaid\<close> block is empty or all white space. Its only failure is the explicit
  "could not extract" error, and a reply with neither the keyword nor an opening
  \<^verbatim>\<open>```mermaid\<close> line (an empty or prose-only reply) fails with it.
\<close>

theorem extractMermaidDiagram_empty_iff:
  "(extractMermaidDiagram r = Inr [] \<longleftrightarrow>
      \<not> sublist keyword r \<and> (\<exists>g. codeBlockMatch r = Some g \<and> (\<forall>c\<in>set g. isWhiteSpace c))) \<and>
   (\<forall>e. extractMermaidDiagram r = Inl e \<longrightarrow>
      e = Error (js ''Could not extract Mermaid diagram from response'')) \<and>
   (\<not> sublist keyword r \<and> \<not> sublist fenceOpen r \<longrightarrow>
      extractMermaidDiagram r = Inl (Error (js ''Could not extract Mermaid diagram from response'')))"
proof (cases "diagramMatch r")
  case None
  then have nk: "\<not> sublist keyword r"
    by (simp add: diagramMatch_def diagramMatchFrom_None)
  show ?thesis
  proof (cases "codeBlockMatch r")
    case None
    with \<open>diagramMatch r = None\<close> nk show ?thesis
      by (simp add: extractMermaidDiagram_def includes_str_sublist)
  next
    case (Some g)
    from Some have "sublist fenceOpen r" by (rule codeBlockMatch_Some_fenceOpen)
    with Some \<open>diagramMatch r = None\<close> nk show ?thesis
      by (simp add: extractMermaidDiagram_def trim_Nil_iff)
  qed
next
  case (Some a)
  obtain i m where a: "a = (i, m)" by (cases a)
  from Some a have im: "diagramMatchFrom 0 r = Some (i, m)"
    by (simp add: diagramMatch_def)
  then have k: "sublist keyword r"
    using diagramMatchFrom_None [of 0 r] by simp
  from diagramMatchFrom_Some [OF im] obtain s where "m = keyword @ s" by blast
  then have "trim m \<noteq> []" by (simp add: trim_keyword_block_nonempty)
  with Some a k show ?thesis
    by (simp add: extractMermaidDiagram_def)
qed

lemmas literals = keyword_def blankLine_def fenceAfterNewline_def fence_def fenceOpen_def js_def

theorem extractMermaidDiagram_keyword_first_occurrence_witness:
  "sublist keyword (js ''I found 3 states.\<newline>\<newline>stateDiagram-v2\<newline>  [*] --> Idle\<newline>'') \<and>
   diagramMatch (js ''I found 3 states.\<newline>\<newline>stateDiagram-v2\<newline>  [*] --> Idle\<newline>'') =
     Some (19, js ''stateDiagram-v2\<newline>  [*] --> Idle\<newline>'') \<and>
   extractMermaidDiagram (js ''I found 3 states.\<newline>\<newline>stateDiagram-v2\<newline>  [*] --> Idle\<newline>'') =
     Inr (js ''stateDiagram-v2\<newline>  [*] --> Idle'')"
proof -
  let ?r = "js ''I found 3 states.\<newline>\<newline>stateDiagram-v2\<newline>  [*] --> Idle\<newline>''"
  have h: "sublist keyword ?r"
    unfolding includes_str_sublist [symmetric] by (simp add: literals)
  have m: "diagramMatch ?r = Some (19, js ''stateDiagram-v2\<newline>  [*] --> Idle\<newline>'')"
    by (simp add: diagramMatch_def atBoundary_def literals)
  from extractMermaidDiagram_keyword_first_occurrence [OF h] m
  have "extractMermaidDiagram ?r = Inr (trim (js ''stateDiagram-v2\<newline>  [*] --> Idle\<newline>''))"
    by auto
  then have "extractMermaidDiagram ?r = Inr (js ''stateDiagram-v2\<newline>  [*] --> Idle'')"
    by (simp add: trim_def isWhiteSpace_def js_def)
  with h m show ?thesis by blast
qed

text \<open>
  C2 as stated fails on a reply that names the keyword inside a sentence before a fenced
  block: a block anchored at the start of a line exists, but the expression matches the
  earlier occurrence in the middle of the first line, and that capture is returned.
\<close>

theorem extractMermaidDiagram_line_start_counterexample:
  "specLineStartBlock (js ''A stateDiagram-v2 chart:\<newline>\<newline>```mermaid\<newline>stateDiagram-v2\<newline>A --> B\<newline>```'') =
     Some (js ''stateDiagram-v2\<newline>A --> B'') \<and>
   diagramMatch (js ''A stateDiagram-v2 chart:\<newline>\<newline>```mermaid\<newline>stateDiagram-v2\<newline>A --> B\<newline>```'') =
     Some (2, js ''stateDiagram-v2 chart:'') \<and>
   extractMermaidDiagram (js ''A stateDiagram-v2 chart:\<newline>\<newline>```mermaid\<newline>stateDiagram-v2\<newline>A --> B\<newline>```'') =
     Inr (js ''stateDiagram-v2 chart:'')"
  by (simp add: extractMermaidDiagram_def diagramMatch_def specLineStartBlock_def
      isLineTerminator_def trim_def isWhiteSpace_def atBoundary_def literals)

theorem extractMermaidDiagram_empty_iff_witness:
  "\<not> sublist keyword (js ''No state machine here.'') \<and>
   \<not> sublist fenceOpen (js ''No state machine here.'') \<and>
   extractMermaidDiagram (js ''No state machine here.'') =
     Inl (Error (js ''Could not extract Mermaid diagram from response'')) \<and>
   codeBlockMatch (js ''```mermaid\<newline> \<newline>```'') = Some (js '' \<newline>'') \<and>
   extractMermaidDiagram (js ''```mermaid\<newline> \<newline>```'') = Inr []"
proof -
  let ?p = "js ''No state machine here.''"
  let ?q = "js ''```mermaid\<newline> \<newline>```''"
  have p: "\<not> sublist keyword ?p" "\<not> sublist fenceOpen ?p"
    unfolding includes_str_sublist [symmetric] by (simp_all add: literals)
  have q: "\<not> sublist keyword ?q"
    unfolding includes_str_sublist [symmetric] by (simp add: literals)
  have g: "codeBlockMatch ?q = Some (js '' \<newline>'')"
    by (simp add: literals)
  have ws: "\<forall>c\<in>set (js '' \<newline>''). isWhiteSpace c"
    by (simp add: js_def isWhiteSpace_def)
  from extractMermaidDiagram_empty_iff [of ?p] p
  have "extractMermaidDiagram ?p = Inl (Error (js ''Could not extract Mermaid diagram from response''))"
    by blast
  moreover from extractMermaidDiagram_empty_iff [of ?q] q g ws
  have "extractMermaidDiagram ?q = Inr []"
    by blast
  ultimately show ?thesis using p g by blast
qed

text \<open>
  C5 as stated fails on a reply that is an empty fenced block: the second strategy
  matches and the empty string is returned, with no error.
\<close>

theorem extractMermaidDiagram_empty_fence_counterexample:
  "extractMermaidDiagram (js ''```mermaid\<newline>```'') = Inr []"
  by (simp add: extractMermaidDiagram_def diagramMatch_def trim_def literals)

section \<open>Properties of the scan and of reading\<close>

lemma readLoop_eq:
  "readLoop e a ps (w, acc) =
     (w\<lparr>trace := trace w @ map (warningOf e) (filter (unreadable e) ps)\<rparr>,
      acc @ map (recordOf e a) (filter (\<lambda>p. \<not> unreadable e p) ps))"
proof (induction ps arbitrary: w acc)
  case Nil
  then show ?case by simp
next
  case (Cons p ps)
  show ?case
  proof (cases "readFileSync e p")
    case (Inl err)
    then show ?thesis
      by (simp add: Cons.IH unreadable_def warningOf_def logEffect_def)
  next
    case (Inr c)
    then show ?thesis
      by (simp add: Cons.IH unreadable_def recordOf_def)
  qed
qed

lemma readFiles_eq:
  "readFiles e a filePaths w =
     (w\<lparr>trace := trace w @ map (warningOf e) (filter (unreadable e) filePaths)\<rparr>,
      map (recordOf e a) (filter (\<lambda>p. \<not> unreadable e p) filePaths))"
  by (simp add: readFiles_def readLoop_eq)

text \<open>
  C8. For every list of requested paths, \<open>readFiles\<close> returns one record per readable
  path and no other, in the order of the request, with the path made relative to the
  workspace root and the content as read: of \<open>N\<close> paths with \<open>K\<close> unreadable, \<open>N - K\<close>
  records. Each unreadable path adds one warning to the trace and changes nothing
  else; the loop goes on.
\<close>

theorem readFiles_skips_unreadable:
  "readFiles e a filePaths w =
     (w\<lparr>trace := trace w @ map (warningOf e) (filter (unreadable e) filePaths)\<rparr>,
      map (recordOf e a) (filter (\<lambda>p. \<not> unreadable e p) filePaths)) \<and>
   length (snd (readFiles e a filePaths w)) =
     length filePaths - length (filter (unreadable e) filePaths) \<and>
   map path (snd (readFiles e a filePaths w)) =
     map (pathRelative e (workspacePath a)) (filter (\<lambda>p. \<not> unreadable e p) filePaths)"
proof -
  have eq: "readFiles e a filePaths w =
     (w\<lparr>trace := trace w @ map (warningOf e) (filter (unreadable e) filePaths)\<rparr>,
      map (recordOf e a) (filter (\<lambda>p. \<not> unreadable e p) filePaths))"
    by (rule readFiles_eq)
  have "length (filter (unreadable e) filePaths) +
        length (filter (\<lambda>p. \<not> unreadable e p) filePaths) = length filePaths"
    by (rule sum_length_filter_compl)
  then have len: "length (snd (readFiles e a filePaths w)) =
     length filePaths - length (filter (unreadable e) filePaths)"
    by (simp add: eq)
  have "map path (snd (readFiles e a filePaths w)) =
     map (pathRelative e (workspacePath a)) (filter (\<lambda>p. \<not> unreadable e p) filePaths)"
    by (simp add: eq recordOf_def comp_def)
  with eq len show ?thesis by blast
qed

lemma globPatterns_ok:
  "\<forall>p\<in>set ps. glob e p (workspacePath a) (excludePatterns (options a)) = Inr (ms p) \<Longrightarrow>
   globPatterns e a ps acc = Inr (acc @ concat (map ms ps))"
  by (induction ps arbitrary: acc) auto

lemma filterBySize_ok:
  "\<forall>f\<in>set fs. statSync e f = Inr (st f) \<Longrightarrow>
   filterBySize e a fs acc =
     Inr (acc @ filter (\<lambda>f. size_bytes (st f) \<le> maxFileSize (options a)) fs)"
  by (induction fs arbitrary: acc) auto

lemma filterBySize_fail:
  "\<forall>f\<in>set pre. \<not> isl (statSync e f) \<Longrightarrow> statSync e g = Inl err \<Longrightarrow>
   filterBySize e a (pre @ g # post) acc = Inl err"
proof (induction pre arbitrary: acc)
  case Nil
  then show ?case by simp
next
  case (Cons f pre)
  then show ?case by (cases "statSync e f") auto
qed

text \<open>
  C6 (as amended). When every \<open>glob\<close> call succeeds and \<open>f\<close> is the first candidate,
  in the order of the matches, whose status cannot be read, the scan fails with the
  error of that lookup: no list of paths is returned.
\<close>

theorem scanWorkspace_stat_failure_aborts:
  assumes "\<forall>p\<in>set (filePatterns (options a)).
             glob e p (workspacePath a) (excludePatterns (options a)) = Inr (ms p)"
    and "concat (map ms (filePatterns (options a))) = pre @ f # post"
    and "\<forall>g\<in>set pre. \<not> isl (statSync e g)"
    and "statSync e f = Inl err"
  shows "scanWorkspace e a = Inl err"
proof -
  from assms(1) have "globPatterns e a (filePatterns (options a)) [] =
      Inr ([] @ concat (map ms (filePatterns (options a))))"
    by (rule globPatterns_ok)
  with assms(2) have "globPatterns e a (filePatterns (options a)) [] = Inr (pre @ f # post)"
    by simp
  moreover from assms(3,4) have "filterBySize e a (pre @ f # post) [] = Inl err"
    by (rule filterBySize_fail)
  ultimately show ?thesis by (simp add: scanWorkspace_def)
qed

text \<open>
  C7 (as amended). When every \<open>glob\<close> call and every status lookup succeeds, the scan
  returns, pattern by pattern in the order of the include patterns, the matches of the
  pattern that are at or below the size ceiling. Nothing else is removed: a path that
  \<open>k\<close> patterns match is returned \<open>k\<close> times, and a directory among the matches is kept.
\<close>

theorem scanWorkspace_keeps_every_match:
  assumes "\<forall>p\<in>set (filePatterns (options a)).
             glob e p (workspacePath a) (excludePatterns (options a)) = Inr (ms p)"
    and "\<forall>f\<in>set (concat (map ms (filePatterns (options a)))). statSync e f = Inr (st f)"
  shows "scanWorkspace e a =
     Inr (filter (\<lambda>f. size_bytes (st f) \<le> maxFileSize (options a))
            (concat (map ms (filePatterns (options a)))))"
proof -
  from assms(1) have "globPatterns e a (filePatterns (options a)) [] =
      Inr ([] @ concat (map ms (filePatterns (options a))))"
    by (rule globPatterns_ok)
  moreover from assms(2) have
    "filterBySize e a (concat (map ms (filePatterns (options a)))) [] =
       Inr ([] @ filter (\<lambda>f. size_bytes (st f) \<le> maxFileSize (options a))
            (concat (map ms (filePatterns (options a)))))"
    by (rule filterBySize_ok)
  ultimately show ?thesis by (simp add: scanWorkspace_def)
qed

lemmas env_defs = posixEnv_def enoent_def newAnalyzer_def

text \<open>
  C7 as stated fails with overlapping include patterns: the file that both patterns
  match is returned twice, and the directory that the second pattern matches is
  returned as well.
\<close>

theorem scanWorkspace_duplicates_counterexample:
  "scanWorkspace overlapEnv overlapAnalyzer =
     Inr [js ''/ws/src/a.js'', js ''/ws/src/a.js'', js ''/ws/src/lib''] \<and>
   \<not> distinct [js ''/ws/src/a.js'', js ''/ws/src/a.js'', js ''/ws/src/lib''] \<and>
   statSync overlapEnv (js ''/ws/src/lib'') = Inr \<lparr>size_bytes = 4096, isDirectory = True\<rparr>"
  by (simp add: scanWorkspace_def overlapEnv_def overlapAnalyzer_def env_defs js_def)

text \<open>
  C6 as stated fails on a candidate whose status cannot be read: the scan does not
  return the other candidate, it fails with the error of the lookup.
\<close>

theorem scanWorkspace_stat_failure_counterexample:
  "glob danglingEnv (js ''**/*.py'') (js ''/ws'') (excludePatterns (options wsAnalyzer)) =
     Inr [js ''/ws/a.py'', js ''/ws/gone.py''] \<and>
   statSync danglingEnv (js ''/ws/gone.py'') = Inl enoent \<and>
   scanWorkspace danglingEnv wsAnalyzer = Inl enoent"
  by (simp add: scanWorkspace_def danglingEnv_def wsAnalyzer_def env_defs js_def)

section \<open>Properties of the oracle invocation\<close>

lemma handleEvent_settled:
  "outcome (snd st) \<noteq> Pending \<Longrightarrow> outcome (snd (handleEvent e t ev st)) = outcome (snd st)"
  by (cases st; cases ev) (auto simp: settle_def split: promise.splits)

lemma handleEvents_settled:
  "outcome (snd st) \<noteq> Pending \<Longrightarrow> outcome (snd (handleEvents e t evs st)) = outcome (snd st)"
  by (induction evs arbitrary: st) (simp_all add: handleEvent_settled)








lemma handleEvent_terminal_settles:
  "isTerminal ev \<Longrightarrow> outcome (snd (handleEvent e t ev st)) \<noteq> Pending"
  by (cases st; cases ev) (auto simp: settle_def split: promise.splits)


lemma handleEvents_nonterminal:
  "\<forall>x\<in>set evs. \<not> isTerminal x \<Longrightarrow>
   handleEvents e t evs (w, s) =
     (w, s\<lparr>output_text := output_text s @ capturedStdout evs,
           errorOutput := errorOutput s @ capturedStderr evs\<rparr>)"
proof (induction evs arbitrary: s)
  case Nil
  then show ?case by simp
next
  case (Cons ev evs)
  then show ?case by (cases ev) simp_all
qed

lemma handleEvents_append:
  "handleEvents e t (xs @ ys) st = handleEvents e t ys (handleEvents e t xs st)"
  by (induction xs arbitrary: st) simp_all


lemma handleEvent_trace:
  "trace (fst (handleEvent e t ev st)) =
     trace (fst st) @ (if isTerminal ev then [Unlink t] else [])"
  by (cases st; cases ev) (simp_all add: unlinkSync_def logEffect_def split: option.splits)

lemma handleEvents_trace:
  "trace (fst (handleEvents e t evs st)) =
     trace (fst st) @ replicate (length (filter isTerminal evs)) (Unlink t)"
proof (induction evs arbitrary: st)
  case Nil
  then show ?case by simp
next
  case (Cons ev evs)
  show ?case
    by (simp add: Cons.IH handleEvent_trace replicate_app_Cons_same)
qed


lemma analyzeWithClaude_run:
  assumes "writeFault e (tmpFileName e) = None"
    and "spawnThrows e (commandLine e (tmpFileName e)) = None"
  shows "analyzeWithClaude e prompt w =
     (fst (handleEvents e (tmpFileName e) (oracleEvents e prompt w) (spawned e prompt w, initialChild)),
      outcome (snd (handleEvents e (tmpFileName e) (oracleEvents e prompt w)
                      (spawned e prompt w, initialChild))))"
  using assms
  by (simp add: analyzeWithClaude_def writeFileSync_def oracleEvents_def spawned_def
      initialChild_def logEffect_def Let_def split: prod.splits)

text \<open>
  A \<open>spawn\<close> that throws: the promise is rejected with the exception as it is, and the
  world is the one in which the handlers would have started, the temporary file in it.
\<close>

lemma analyzeWithClaude_spawn_throws:
  assumes "writeFault e (tmpFileName e) = None"
    and "spawnThrows e (commandLine e (tmpFileName e)) = Some err"
  shows "analyzeWithClaude e prompt w = (spawned e prompt w, Rejected err)"
  using assms
  by (simp add: analyzeWithClaude_def writeFileSync_def spawned_def logEffect_def Let_def)

lemma analyzeWithClaude_trace_prefix:
  "prefix (trace w @ [WriteFile (tmpFileName e) prompt])
     (trace (fst (analyzeWithClaude e prompt w)))"
proof (cases "writeFault e (tmpFileName e)")
  case (Some err)
  then show ?thesis
    by (simp add: analyzeWithClaude_def writeFileSync_def logEffect_def Let_def)
next
  case None
  note wf = this
  show ?thesis
  proof (cases "spawnThrows e (commandLine e (tmpFileName e))")
    case (Some err)
    with wf show ?thesis
      by (simp add: analyzeWithClaude_spawn_throws spawned_def logEffect_def)
  next
    case None
    with wf show ?thesis
      by (simp add: analyzeWithClaude_run handleEvents_trace spawned_def logEffect_def)
  qed
qed


text \<open>
  How the handlers classify the outcome when \<open>spawn\<close> has returned a child process:
  the first \<open>close\<close> or \<open>error\<close> event decides.
\<close>

lemma analyzeWithClaude_event_classification:
  assumes "writeFault e (tmpFileName e) = None"
    and "spawnThrows e (commandLine e (tmpFileName e)) = None"
    and "oracleEvents e prompt w = pre @ ev # post"
    and "\<forall>x\<in>set pre. \<not> isTerminal x"
  shows "(\<forall>err. ev = ErrorEvent err \<longrightarrow>
            snd (analyzeWithClaude e prompt w) =
              Rejected (Error (js ''Failed to start Claude CLI: '' @ message err @
                               js ''. Make sure 'claude' is installed and in your PATH.''))) \<and>
         (\<forall>code. ev = CloseEvent code \<and> code \<noteq> Some 0 \<longrightarrow>
            snd (analyzeWithClaude e prompt w) =
              Rejected (Error (js ''Claude CLI exited with code '' @ showCode code @ js '': '' @
                               capturedStderr pre))) \<and>
         (ev = CloseEvent (Some 0) \<longrightarrow>
            snd (analyzeWithClaude e prompt w) = Resolved (trim (capturedStdout pre)))"
proof -
  let ?t = "tmpFileName e"
  let ?s = "initialChild\<lparr>output_text := output_text initialChild @ capturedStdout pre,
                         errorOutput := errorOutput initialChild @ capturedStderr pre\<rparr>"
  have pre: "handleEvents e ?t pre (spawned e prompt w, initialChild) = (spawned e prompt w, ?s)"
    using assms(4) by (rule handleEvents_nonterminal)
  let ?st = "handleEvent e ?t ev (spawned e prompt w, ?s)"
  have run: "snd (analyzeWithClaude e prompt w) = outcome (snd (handleEvents e ?t post ?st))"
    by (simp add: analyzeWithClaude_run [OF assms(1,2)] assms(3) handleEvents_append pre)
  have fin: "isTerminal ev \<Longrightarrow> outcome (snd (handleEvents e ?t post ?st)) = outcome (snd ?st)"
    by (rule handleEvents_settled) (simp add: handleEvent_terminal_settles)
  show ?thesis
  proof (cases ev)
    case (StdoutData d)
    then show ?thesis by simp
  next
    case (StderrData d)
    then show ?thesis by simp
  next
    case (CloseEvent code)
    with fin have "snd (analyzeWithClaude e prompt w) = outcome (snd ?st)"
      by (simp add: run)
    with CloseEvent show ?thesis
      by (simp add: settle_def initialChild_def exitedError_def)
  next
    case (ErrorEvent err)
    with fin have "snd (analyzeWithClaude e prompt w) = outcome (snd ?st)"
      by (simp add: run)
    with ErrorEvent show ?thesis
      by (simp add: settle_def initialChild_def startError_def)
  qed
qed

section \<open>Properties of the pipeline\<close>

lemma readLoop_ignores_scan_settings:
  "readLoop (e\<lparr>glob := g, statSync := st\<rparr>) (a\<lparr>options := opts\<rparr>) ps acc = readLoop e a ps acc"
proof (induction ps arbitrary: acc)
  case Nil
  then show ?case by (cases acc) simp
next
  case (Cons p ps)
  then show ?case by (cases acc) (simp split: sum.splits)
qed

lemma handleEvent_ignores_scan_settings:
  "handleEvent (e\<lparr>glob := g, statSync := st\<rparr>) t ev s = handleEvent e t ev s"
  by (cases s; cases ev) (simp_all add: unlinkSync_def)

lemma handleEvents_ignores_scan_settings:
  "handleEvents (e\<lparr>glob := g, statSync := st\<rparr>) t evs s = handleEvents e t evs s"
  by (induction evs arbitrary: s) (simp_all add: handleEvent_ignores_scan_settings)

lemma analyzeWithClaude_ignores_scan_settings:
  "analyzeWithClaude (e\<lparr>glob := g, statSync := st\<rparr>) prompt w = analyzeWithClaude e prompt w"
proof -
  let ?e = "e\<lparr>glob := g, statSync := st\<rparr>"
  have same: "tmpFileName ?e = tmpFileName e" "commandLine ?e = commandLine e"
    "writeFileSync ?e = writeFileSync e" "spawnThrows ?e = spawnThrows e"
    "childEvents ?e = childEvents e"
    by (simp_all add: tmpFileName_def commandLine_def writeFileSync_def fun_eq_iff)
  show ?thesis
    unfolding analyzeWithClaude_def same handleEvents_ignores_scan_settings ..
qed

lemma selectedRecords_paths:
  "map path (selectedRecords e a sel) =
     map (pathRelative e (workspacePath a))
       (filter (\<lambda>p. \<not> unreadable e p) (selectedPaths e a sel))"
  by (simp add: selectedRecords_def recordOf_def comp_def)

lemma readFiles_selected:
  "readFiles e a (selectedPaths e a sel) w =
     (w\<lparr>trace := trace w @ selectedWarnings e a sel\<rparr>, selectedRecords e a sel)"
  by (simp add: readFiles_eq selectedRecords_def selectedWarnings_def)

lemma analyze_selected:
  assumes "sel \<noteq> []"
  shows "analyze e a focusArea (Some sel) w =
     (case analyzeWithClaude e (createAnalysisPrompt (selectedRecords e a sel) focusArea)
             (w\<lparr>trace := trace w @ selectedWarnings e a sel\<rparr>) of
        (w2, p) \<Rightarrow>
          (case p of
             Pending \<Rightarrow> (w2, Pending)
           | Rejected err \<Rightarrow> (w2, Rejected err)
           | Resolved response \<Rightarrow>
               (case extractMermaidDiagram response of
                  Inl err \<Rightarrow> (w2, Rejected err)
                | Inr diagram \<Rightarrow>
                    (w2, Resolved \<lparr>analysis = response, mermaidDiagram = diagram,
                                   filesAnalyzed =
                                     map (pathRelative e (workspacePath a))
                                       (filter (\<lambda>p. \<not> unreadable e p)
                                          (selectedPaths e a sel))\<rparr>))))"
proof -
  have p: "selectPaths e a (Some sel) = Inr (selectedPaths e a sel)"
    by (simp add: selectPaths_def selectedPaths_def)
  from assms have ne: "selectedPaths e a sel \<noteq> []"
    by (simp add: selectedPaths_def)
  show ?thesis
    by (simp add: analyze_def p ne readFiles_selected selectedRecords_paths Let_def
        split: prod.splits promise.splits sum.splits)
qed

lemma analyze_trace:
  assumes "selectPaths e a selectedFiles = Inr filePaths" and "filePaths \<noteq> []"
  shows "fst (analyze e a focusArea selectedFiles w) =
     fst (analyzeWithClaude e
            (createAnalysisPrompt (snd (readFiles e a filePaths w)) focusArea)
            (fst (readFiles e a filePaths w)))"
  using assms
  by (simp add: analyze_def Let_def split: prod.splits promise.splits sum.splits)

lemma join_sublist: "x \<in> set xs \<Longrightarrow> sublist x (join sep xs)"
proof (induction sep xs rule: join.induct)
  case (1 sep)
  then show ?case by simp
next
  case (2 sep y)
  then show ?case by simp
next
  case (3 sep y z zs)
  show ?case
  proof (cases "x = y")
    case True
    then show ?thesis by simp
  next
    case False
    with 3 have "sublist x (join sep (z # zs))" by simp
    moreover have "sublist (join sep (z # zs)) ((y @ sep) @ join sep (z # zs))"
      by (rule sublist_append_leftI)
    ultimately have "sublist x ((y @ sep) @ join sep (z # zs))"
      by (rule sublist_order.order.trans)
    then show ?thesis by simp
  qed
qed

lemma fileSummary_includes:
  "sublist (path r) (fileSummary r)" "sublist (content r) (fileSummary r)"
proof -
  show "sublist (path r) (fileSummary r)"
    unfolding fileSummary_def by (rule sublist_appendI)
  have "sublist (content r)
      ((js ''File: '' @ path r @ js ''\<newline>```\<newline>'') @ content r @ js ''\<newline>```\<newline>'')"
    by (rule sublist_appendI)
  then show "sublist (content r) (fileSummary r)"
    by (simp add: fileSummary_def)
qed

lemma createAnalysisPrompt_includes_summaries:
  "\<exists>rest. createAnalysisPrompt rs focusArea =
     promptIntro @ join (js ''\<newline>---\<newline>\<newline>'') (map fileSummary rs) @ rest"
  by (simp add: createAnalysisPrompt_def Let_def split: option.splits)

lemma createAnalysisPrompt_includes:
  assumes "r \<in> set rs"
  shows "sublist (path r) (createAnalysisPrompt rs focusArea)"
    and "sublist (content r) (createAnalysisPrompt rs focusArea)"
proof -
  from assms have "sublist (fileSummary r) (join (js ''\<newline>---\<newline>\<newline>'') (map fileSummary rs))"
    by (intro join_sublist) simp
  moreover obtain rest where "createAnalysisPrompt rs focusArea =
     promptIntro @ join (js ''\<newline>---\<newline>\<newline>'') (map fileSummary rs) @ rest"
    using createAnalysisPrompt_includes_summaries by blast
  then have "sublist (join (js ''\<newline>---\<newline>\<newline>'') (map fileSummary rs))
      (createAnalysisPrompt rs focusArea)"
    by simp
  ultimately have s: "sublist (fileSummary r) (createAnalysisPrompt rs focusArea)"
    by (rule sublist_order.order.trans)
  from fileSummary_includes(1) s show "sublist (path r) (createAnalysisPrompt rs focusArea)"
    by (rule sublist_order.order.trans)
  from fileSummary_includes(2) s show "sublist (content r) (createAnalysisPrompt rs focusArea)"
    by (rule sublist_order.order.trans)
qed

text \<open>
  C10. With an explicit list of selected files, \<open>analyze\<close> does not depend on \<open>glob\<close>,
  on \<open>statSync\<close> or on the options (include patterns, exclude patterns, size ceiling):
  replacing them changes nothing. A non-empty selection is resolved against the
  workspace root and read as it is: the prompt handed to the oracle is the one built
  from the records of all selected paths that can be read, it contains the relative
  path and the content of each of them, it is written to the temporary file right
  after the warnings for the unreadable ones, and the files analyzed in the result are
  those same paths.
\<close>

theorem analyze_selected_files_bypass_scan:
  "analyze (e\<lparr>glob := g, statSync := st\<rparr>) (a\<lparr>options := opts\<rparr>) focusArea (Some sel) w =
     analyze e a focusArea (Some sel) w \<and>
   (sel \<noteq> [] \<longrightarrow>
      analyze e a focusArea (Some sel) w =
        (case analyzeWithClaude e (createAnalysisPrompt (selectedRecords e a sel) focusArea)
                (w\<lparr>trace := trace w @ selectedWarnings e a sel\<rparr>) of
           (w2, p) \<Rightarrow>
             (case p of
                Pending \<Rightarrow> (w2, Pending)
              | Rejected err \<Rightarrow> (w2, Rejected err)
              | Resolved response \<Rightarrow>
                  (case extractMermaidDiagram response of
                     Inl err \<Rightarrow> (w2, Rejected err)
                   | Inr diagram \<Rightarrow>
                       (w2, Resolved \<lparr>analysis = response, mermaidDiagram = diagram,
                                      filesAnalyzed =
                                        map (pathRelative e (workspacePath a))
                                          (filter (\<lambda>p. \<not> unreadable e p)
                                             (selectedPaths e a sel))\<rparr>)))) \<and>
      prefix
        (trace w @ selectedWarnings e a sel @
         [WriteFile (tmpFileName e) (createAnalysisPrompt (selectedRecords e a sel) focusArea)])
        (trace (fst (analyze e a focusArea (Some sel) w)))) \<and>
   (\<forall>r\<in>set (selectedRecords e a sel).
      sublist (path r) (createAnalysisPrompt (selectedRecords e a sel) focusArea) \<and>
      sublist (content r) (createAnalysisPrompt (selectedRecords e a sel) focusArea))"
proof -
  have inv: "analyze (e\<lparr>glob := g, statSync := st\<rparr>) (a\<lparr>options := opts\<rparr>) focusArea (Some sel) w =
     analyze e a focusArea (Some sel) w"
    by (simp add: analyze_def selectPaths_def readFiles_def readLoop_ignores_scan_settings
        analyzeWithClaude_ignores_scan_settings)
  have tr: "prefix
        (trace w @ selectedWarnings e a sel @
         [WriteFile (tmpFileName e) (createAnalysisPrompt (selectedRecords e a sel) focusArea)])
        (trace (fst (analyze e a focusArea (Some sel) w)))"
    if "sel \<noteq> []"
  proof -
    have "selectPaths e a (Some sel) = Inr (selectedPaths e a sel)"
      by (simp add: selectPaths_def selectedPaths_def)
    moreover from that have "selectedPaths e a sel \<noteq> []"
      by (simp add: selectedPaths_def)
    ultimately have "fst (analyze e a focusArea (Some sel) w) =
        fst (analyzeWithClaude e
               (createAnalysisPrompt (selectedRecords e a sel) focusArea)
               (w\<lparr>trace := trace w @ selectedWarnings e a sel\<rparr>))"
      by (simp add: analyze_trace readFiles_selected)
    moreover have "prefix
        (trace (w\<lparr>trace := trace w @ selectedWarnings e a sel\<rparr>) @
         [WriteFile (tmpFileName e) (createAnalysisPrompt (selectedRecords e a sel) focusArea)])
        (trace (fst (analyzeWithClaude e
               (createAnalysisPrompt (selectedRecords e a sel) focusArea)
               (w\<lparr>trace := trace w @ selectedWarnings e a sel\<rparr>))))"
      by (rule analyzeWithClaude_trace_prefix)
    ultimately show ?thesis by simp
  qed
  have inc: "\<forall>r\<in>set (selectedRecords e a sel).
      sublist (path r) (createAnalysisPrompt (selectedRecords e a sel) focusArea) \<and>
      sublist (content r) (createAnalysisPrompt (selectedRecords e a sel) focusArea)"
    by (simp add: createAnalysisPrompt_includes)
  have eq: "sel \<noteq> [] \<Longrightarrow> analyze e a focusArea (Some sel) w =
        (case analyzeWithClaude e (createAnalysisPrompt (selectedRecords e a sel) focusArea)
                (w\<lparr>trace := trace w @ selectedWarnings e a sel\<rparr>) of
           (w2, p) \<Rightarrow>
             (case p of
                Pending \<Rightarrow> (w2, Pending)
              | Rejected err \<Rightarrow> (w2, Rejected err)
              | Resolved response \<Rightarrow>
                  (case extractMermaidDiagram response of
                     Inl err \<Rightarrow> (w2, Rejected err)
                   | Inr diagram \<Rightarrow>
                       (w2, Resolved \<lparr>analysis = response, mermaidDiagram = diagram,
                                      filesAnalyzed =
                                        map (pathRelative e (workspacePath a))
                                          (filter (\<lambda>p. \<not> unreadable e p)
                                             (selectedPaths e a sel))\<rparr>))))"
    by (rule analyze_selected)
  show ?thesis
    apply (intro conjI impI)
       apply (rule inv)
      apply (erule eq)
     apply (erule tr)
    apply (rule inc)
    done
qed

text \<open>
  The guard of \<open>analyze\<close>: an empty list of paths is rejected with the world unchanged,
  so nothing has been written or spawned.
\<close>

lemma analyze_no_paths:
  "selectPaths e a selectedFiles = Inr [] \<Longrightarrow>
   analyze e a focusArea selectedFiles w = (w, Rejected (Error (js ''No files found to analyze'')))"
  by (simp add: analyze_def)

section \<open>Properties of saving\<close>










section \<open>The properties on the concrete environments\<close>

lemmas run_defs =
  analyzeWithClaude_def writeFileSync_def unlinkSync_def logEffect_def tmpFileName_def
  commandLine_def settle_def exitedError_def startError_def showCode_def showInt_def
  oracleEvents_def emptyWorld_def posixEnv_def enoent_def replyEvents_def Let_def

theorem scanWorkspace_stat_failure_aborts_witness:
  "statSync danglingEnv (js ''/ws/a.py'') = Inr \<lparr>size_bytes = 20, isDirectory = False\<rparr> \<and>
   statSync danglingEnv (js ''/ws/gone.py'') = Inl enoent \<and>
   scanWorkspace danglingEnv wsAnalyzer = Inl enoent"
proof -
  let ?ms = "\<lambda>p. if p = js ''**/*.py'' then [js ''/ws/a.py'', js ''/ws/gone.py''] else []"
  have g: "\<forall>p\<in>set (filePatterns (options wsAnalyzer)).
      glob danglingEnv p (workspacePath wsAnalyzer) (excludePatterns (options wsAnalyzer)) =
        Inr (?ms p)"
    by (simp add: danglingEnv_def wsAnalyzer_def env_defs)
  have c: "concat (map ?ms (filePatterns (options wsAnalyzer))) =
      [js ''/ws/a.py''] @ js ''/ws/gone.py'' # []"
    by (simp add: wsAnalyzer_def env_defs js_def)
  have s: "\<forall>g\<in>set [js ''/ws/a.py'']. \<not> isl (statSync danglingEnv g)"
    by (simp add: danglingEnv_def env_defs)
  have f: "statSync danglingEnv (js ''/ws/gone.py'') = Inl enoent"
    by (simp add: danglingEnv_def env_defs js_def)
  have a: "statSync danglingEnv (js ''/ws/a.py'') = Inr \<lparr>size_bytes = 20, isDirectory = False\<rparr>"
    by (simp add: danglingEnv_def env_defs)
  from scanWorkspace_stat_failure_aborts [OF g c s f] a f show ?thesis by simp
qed

theorem scanWorkspace_keeps_every_match_witness:
  "maxFileSize (options wsAnalyzer) = 100000 \<and>
   scanWorkspace sizesEnv wsAnalyzer = Inr [js ''/ws/a.py'']"
proof -
  let ?ms = "\<lambda>p. if p = js ''**/*.py'' then [js ''/ws/a.py'', js ''/ws/b.py''] else []"
  let ?st = "\<lambda>p. \<lparr>size_bytes = (if p = js ''/ws/a.py'' then 20 else 200000), isDirectory = False\<rparr>"
  have g: "\<forall>p\<in>set (filePatterns (options wsAnalyzer)).
      glob sizesEnv p (workspacePath wsAnalyzer) (excludePatterns (options wsAnalyzer)) =
        Inr (?ms p)"
    by (simp add: sizesEnv_def wsAnalyzer_def env_defs)
  have c: "concat (map ?ms (filePatterns (options wsAnalyzer))) = [js ''/ws/a.py'', js ''/ws/b.py'']"
    by (simp add: wsAnalyzer_def env_defs js_def)
  have s: "\<forall>f\<in>set (concat (map ?ms (filePatterns (options wsAnalyzer)))).
      statSync sizesEnv f = Inr (?st f)"
    unfolding c by (simp add: sizesEnv_def env_defs js_def)
  have m: "maxFileSize (options wsAnalyzer) = 100000"
    by (simp add: wsAnalyzer_def env_defs)
  from scanWorkspace_keeps_every_match [OF g s] have
    "scanWorkspace sizesEnv wsAnalyzer =
       Inr (filter (\<lambda>f. size_bytes (?st f) \<le> 100000) [js ''/ws/a.py'', js ''/ws/b.py''])"
    unfolding c m .
  then have "scanWorkspace sizesEnv wsAnalyzer = Inr [js ''/ws/a.py'']"
    by (simp add: js_def)
  with m show ?thesis by simp
qed

theorem readFiles_skips_unreadable_witness:
  "snd (readFiles replyingEnv wsAnalyzer [js ''/ws/missing.py'', js ''/ws/a.py''] emptyWorld) =
     [\<lparr>path = js ''a.py'', content = js ''state = 1''\<rparr>] \<and>
   trace (fst (readFiles replyingEnv wsAnalyzer [js ''/ws/missing.py'', js ''/ws/a.py''] emptyWorld)) =
     [Warn (js ''Warning: Could not read /ws/missing.py: ENOENT: no such file or directory'')]"
  using readFiles_skips_unreadable
    [of replyingEnv wsAnalyzer "[js ''/ws/missing.py'', js ''/ws/a.py'']" emptyWorld]
  by (simp add: unreadable_def recordOf_def warningOf_def readWarning_def replyingEnv_def
      posixEnv_def enoent_def wsAnalyzer_def newAnalyzer_def emptyWorld_def js_def)



text \<open>
  C4. Two ways in which the oracle cannot be started do not reach the handler that
  carries the hint. A \<open>spawn\<close> that throws rejects the invocation with the exception as
  it is. A \<open>claude\<close> that is not on the search path is a shell that exits with code 127,
  which is reported as a failed execution.
\<close>

theorem analyzeWithClaude_start_failure_without_hint:
  \<open>snd (analyzeWithClaude throwingSpawnEnv (js ''prompt'') emptyWorld) =
     Rejected (Error (js ''spawn E2BIG'')) \<and>
   snd (analyzeWithClaude missingClaudeEnv (js ''prompt'') emptyWorld) =
     Rejected (Error (js ''Claude CLI exited with code 127: /bin/sh: 1: claude: not found\<newline>'')) \<and>
   \<not> sublist (js ''Make sure 'claude' is installed'') (js ''spawn E2BIG'') \<and>
   \<not> sublist (js ''Make sure 'claude' is installed'')
       (js ''Claude CLI exited with code 127: /bin/sh: 1: claude: not found\<newline>'')\<close>
proof -
  have "snd (analyzeWithClaude throwingSpawnEnv (js ''prompt'') emptyWorld) =
     Rejected (Error (js ''spawn E2BIG''))"
    by (simp add: throwingSpawnEnv_def run_defs)
  moreover
  have "snd (analyzeWithClaude missingClaudeEnv (js ''prompt'') emptyWorld) =
     Rejected (Error (js ''Claude CLI exited with code 127: /bin/sh: 1: claude: not found\<newline>''))"
    by (simp add: missingClaudeEnv_def run_defs js_def split: prod.splits)
  moreover
  have \<open>\<not> sublist (js ''Make sure 'claude' is installed'') (js ''spawn E2BIG'')\<close>
    \<open>\<not> sublist (js ''Make sure 'claude' is installed'')
       (js ''Claude CLI exited with code 127: /bin/sh: 1: claude: not found\<newline>'')\<close>
    unfolding includes_str_sublist [symmetric] by (simp_all add: js_def)
  ultimately show ?thesis by blast
qed

text \<open>The three outcomes that the handlers do classify, and the empty reply.\<close>

lemma analyzeWithClaude_event_classification_examples:
  \<open>snd (analyzeWithClaude replyingEnv (js ''prompt'') emptyWorld) =
     Resolved (js ''Two states.\<newline>\<newline>stateDiagram-v2\<newline>  A --> B'') \<and>
   snd (analyzeWithClaude silentEnv (js ''prompt'') emptyWorld) = Resolved [] \<and>
   snd (analyzeWithClaude failingEnv (js ''prompt'') emptyWorld) =
     Rejected (Error (js ''Claude CLI exited with code 1: not logged in'')) \<and>
   snd (analyzeWithClaude unspawnableEnv (js ''prompt'') emptyWorld) =
     Rejected (Error (js ''Failed to start Claude CLI: spawn /bin/sh ENOENT. Make sure 'claude' is installed and in your PATH.''))\<close>
  by (simp add: replyingEnv_def silentEnv_def failingEnv_def unspawnableEnv_def run_defs
      trim_def isWhiteSpace_def js_def split: prod.splits)



theorem analyze_selected_files_bypass_scan_witness:
  \<open>statSync bigFileEnv (js ''/ws/node_modules/big.js'') =
     Inr \<lparr>size_bytes = 200000, isDirectory = False\<rparr> \<and>
   maxFileSize (options wsAnalyzer) = 100000 \<and>
   snd (analyze bigFileEnv wsAnalyzer None (Some [js ''node_modules/big.js'']) emptyWorld) =
     Resolved \<lparr>analysis = js ''Two states.\<newline>\<newline>stateDiagram-v2\<newline>  A --> B'',
               mermaidDiagram = js ''stateDiagram-v2\<newline>  A --> B'',
               filesAnalyzed = [js ''node_modules/big.js'']\<rparr> \<and>
   trace (fst (analyze bigFileEnv wsAnalyzer None (Some [js ''node_modules/big.js'']) emptyWorld)) =
     [WriteFile (js ''/tmp/claude-prompt-7.txt'')
        (createAnalysisPrompt
           [\<lparr>path = js ''node_modules/big.js'', content = js ''var s = 0;''\<rparr>] None),
      Spawn (js ''claude --print < "/tmp/claude-prompt-7.txt"''),
      Unlink (js ''/tmp/claude-prompt-7.txt'')] \<and>
   sublist (js ''var s = 0;'')
     (createAnalysisPrompt
        [\<lparr>path = js ''node_modules/big.js'', content = js ''var s = 0;''\<rparr>] None)\<close>
proof -
  let ?sel = "[js ''node_modules/big.js'']"
  let ?run = "analyze bigFileEnv wsAnalyzer None (Some ?sel) emptyWorld"
  let ?rec = "\<lparr>path = js ''node_modules/big.js'', content = js ''var s = 0;''\<rparr>"
  have s: "statSync bigFileEnv (js ''/ws/node_modules/big.js'') =
     Inr \<lparr>size_bytes = 200000, isDirectory = False\<rparr>"
    by (simp add: bigFileEnv_def posixEnv_def)
  have m: "maxFileSize (options wsAnalyzer) = 100000"
    by (simp add: wsAnalyzer_def newAnalyzer_def)
  have recs: "selectedRecords bigFileEnv wsAnalyzer ?sel = [?rec]"
    by (simp add: selectedRecords_def selectedPaths_def recordOf_def unreadable_def
        bigFileEnv_def posixEnv_def wsAnalyzer_def newAnalyzer_def js_def)
  have warns: "selectedWarnings bigFileEnv wsAnalyzer ?sel = []"
    by (simp add: selectedWarnings_def selectedPaths_def unreadable_def
        bigFileEnv_def posixEnv_def wsAnalyzer_def newAnalyzer_def js_def)
  have paths: "map (pathRelative bigFileEnv (workspacePath wsAnalyzer))
      (filter (\<lambda>p. \<not> unreadable bigFileEnv p) (selectedPaths bigFileEnv wsAnalyzer ?sel)) = ?sel"
    by (simp add: selectedPaths_def unreadable_def
        bigFileEnv_def posixEnv_def wsAnalyzer_def newAnalyzer_def js_def)
  note inst = analyze_selected_files_bypass_scan [where e = bigFileEnv and g = "glob bigFileEnv"
      and st = "statSync bigFileEnv" and a = wsAnalyzer and opts = "options wsAnalyzer"
      and focusArea = None and sel = ?sel and w = emptyWorld]
  have ne: "?sel \<noteq> []" by simp
  note eq = inst [THEN conjunct2, THEN conjunct1, rule_format, OF ne, THEN conjunct1]
  have run: \<open>snd ?run =
     Resolved \<lparr>analysis = js ''Two states.\<newline>\<newline>stateDiagram-v2\<newline>  A --> B'',
               mermaidDiagram = js ''stateDiagram-v2\<newline>  A --> B'',
               filesAnalyzed = ?sel\<rparr> \<and>
     trace (fst ?run) =
     [WriteFile (js ''/tmp/claude-prompt-7.txt'') (createAnalysisPrompt [?rec] None),
      Spawn (js ''claude --print < "/tmp/claude-prompt-7.txt"''),
      Unlink (js ''/tmp/claude-prompt-7.txt'')]\<close>
    unfolding eq recs warns paths
    by (simp add: bigFileEnv_def run_defs extractMermaidDiagram_def diagramMatch_def
        atBoundary_def trim_def isWhiteSpace_def literals split: prod.splits)
  from inst [THEN conjunct2, THEN conjunct2]
  have "sublist (content ?rec) (createAnalysisPrompt [?rec] None)"
    by (simp add: recs)
  then have inc: "sublist (js ''var s = 0;'') (createAnalysisPrompt [?rec] None)"
    by simp
  from s m run inc show ?thesis by simp
qed

text \<open>
  C1. The guard looks at the list of paths, before they are read. A selection whose
  only file cannot be read passes it: the prompt is built from no file record, the
  oracle is spawned, and the result that is produced lists no analyzed file.
\<close>

theorem analyze_unreadable_selection_reaches_oracle:
  \<open>snd (analyze replyingEnv wsAnalyzer None (Some [js ''missing.py'']) emptyWorld) =
     Resolved \<lparr>analysis = js ''Two states.\<newline>\<newline>stateDiagram-v2\<newline>  A --> B'',
               mermaidDiagram = js ''stateDiagram-v2\<newline>  A --> B'',
               filesAnalyzed = []\<rparr> \<and>
   trace (fst (analyze replyingEnv wsAnalyzer None (Some [js ''missing.py'']) emptyWorld)) =
     [Warn (js ''Warning: Could not read /ws/missing.py: ENOENT: no such file or directory''),
      WriteFile (js ''/tmp/claude-prompt-7.txt'') (createAnalysisPrompt [] None),
      Spawn (js ''claude --print < "/tmp/claude-prompt-7.txt"''),
      Unlink (js ''/tmp/claude-prompt-7.txt'')]\<close>
  by (simp add: analyze_def selectPaths_def readFiles_def replyingEnv_def wsAnalyzer_def
      newAnalyzer_def run_defs readWarning_def extractMermaidDiagram_def diagramMatch_def
      atBoundary_def trim_def isWhiteSpace_def literals split: prod.splits)

end
